theory Spec2Isabelle
  imports Complex_Main
begin

section \<open>The tabular library, as far as \<open>sn/dataframe.py\<close> observes it\<close>

text \<open>
  \<open>to_sqla\<close> and \<open>SNDF.reflect\<close> read a column through a handful of library
  operations: \<open>column.notna()\<close>, indexing by a boolean mask, \<open>infer_dtype\<close>,
  \<open>column.dtype\<close>, the \<open>.dt\<close> accessor (\<open>.dt.tz\<close>, \<open>.dt.hour\<close>) and the
  attribute \<open>column.tz\<close>. The library is not part of the repository; this section
  models exactly these operations. A column is its storage type together with its cells,
  a cell being a scalar or the null marker (\<open>NaN\<close>, \<open>None\<close>, \<open>NaT\<close>), written
  \<open>None\<close>.
\<close>

datatype dtype =
    int8 | int16 | int32 | int64
  | uint8 | uint16 | uint32 | uint64
  | float16 | float32 | float64
  | complex64 | complex128
  | bool8
  | datetime64 "string option"
  | timedelta64
  | object

text \<open>
  \<open>datetime64 None\<close> is the naive storage \<open>datetime64[ns]\<close>, \<open>datetime64 (Some z)\<close>
  the zone-aware storage \<open>datetime64[ns, z]\<close>: a column in datetime storage has one time
  zone, that of its storage type, and \<open>.dt.tz\<close> reads it there. A datetime value also
  carries its own zone (\<open>tzinfo\<close>); values of differing zones, or a column built with
  \<open>dtype=object\<close>, are held in \<open>object\<close> storage, each with its own \<open>tzinfo\<close>.
\<close>

record timestamp =
  year :: int
  month :: nat
  day :: nat
  hour :: nat
  minute :: nat
  second :: nat
  microsecond :: nat
  nanosecond :: nat
  tzinfo :: "string option"

datatype scalar =
    PyInt int
  | PyFloat real
  | PyBool bool
  | PyStr string
  | PyComplex complex
  | Timestamp timestamp
  | PyDate int nat nat
  | PyTime nat nat nat
  | Timedelta int

record series =
  dtype :: dtype
  cells :: "scalar option list"

datatype error = ValueError string | AttributeError string

text \<open>\<open>column.notna()\<close>: the boolean mask of the cells that are not null.\<close>

definition notna :: "series \<Rightarrow> bool list" where
  "notna column = map (\<lambda>v. v \<noteq> None) (cells column)"

text \<open>\<open>column[key]\<close> for a boolean mask \<open>key\<close>: the cells whose mask entry is true; the storage type is kept.\<close>

definition getitem :: "series \<Rightarrow> bool list \<Rightarrow> series" where
  "getitem column key = column\<lparr>cells := map fst (filter snd (zip (cells column) key))\<rparr>"

text \<open>
  \<open>infer_dtype\<close> looks at the storage type first and only classifies the values of a
  column held in \<open>object\<close> storage. There it skips nulls, answers \<open>empty\<close> when nothing
  is left and the common kind when all values share one; the library's several labels for
  heterogeneous values (\<open>mixed\<close>, \<open>mixed-integer\<close>, \<open>mixed-integer-float\<close>) are not told
  apart here, none of them being a key of the translation table of \<open>to_sqla\<close>.
\<close>

fun try_infer_map :: "dtype \<Rightarrow> string option" where
  "try_infer_map int8 = Some ''integer''"
| "try_infer_map int16 = Some ''integer''"
| "try_infer_map int32 = Some ''integer''"
| "try_infer_map int64 = Some ''integer''"
| "try_infer_map uint8 = Some ''integer''"
| "try_infer_map uint16 = Some ''integer''"
| "try_infer_map uint32 = Some ''integer''"
| "try_infer_map uint64 = Some ''integer''"
| "try_infer_map float16 = Some ''floating''"
| "try_infer_map float32 = Some ''floating''"
| "try_infer_map float64 = Some ''floating''"
| "try_infer_map complex64 = Some ''complex''"
| "try_infer_map complex128 = Some ''complex''"
| "try_infer_map bool8 = Some ''boolean''"
| "try_infer_map (datetime64 z) = Some ''datetime64''"
| "try_infer_map timedelta64 = Some ''timedelta64''"
| "try_infer_map object = None"

fun scalar_kind :: "scalar \<Rightarrow> string" where
  "scalar_kind (PyInt i) = ''integer''"
| "scalar_kind (PyFloat x) = ''floating''"
| "scalar_kind (PyBool b) = ''boolean''"
| "scalar_kind (PyStr s) = ''string''"
| "scalar_kind (PyComplex z) = ''complex''"
| "scalar_kind (Timestamp t) = ''datetime''"
| "scalar_kind (PyDate y m d) = ''date''"
| "scalar_kind (PyTime h m s) = ''time''"
| "scalar_kind (Timedelta n) = ''timedelta''"

definition infer_dtype :: "series \<Rightarrow> string" where
  "infer_dtype column =
     (case try_infer_map (dtype column) of
        Some kind \<Rightarrow> kind
      | None \<Rightarrow>
          (case List.map_filter id (cells column) of
             [] \<Rightarrow> ''empty''
           | v # vs \<Rightarrow>
               if list_all (\<lambda>x. scalar_kind x = scalar_kind v) vs then scalar_kind v
               else ''mixed''))"

text \<open>
  The \<open>.dt\<close> accessor exists for datetime storage only; on any other column the
  library raises \<open>AttributeError\<close>. \<open>.dt.tz\<close> is the zone of the storage type;
  \<open>.dt.hour\<close> is the hour of each cell, null (\<open>NaN\<close>) for a null cell.
\<close>

definition dt_tz :: "series \<Rightarrow> error + string option" where
  "dt_tz column =
     (case dtype column of
        datetime64 z \<Rightarrow> Inr z
      | _ \<Rightarrow> Inl (AttributeError ''Can only use .dt accessor with datetimelike values''))"

fun hour_of :: "scalar option \<Rightarrow> nat option" where
  "hour_of (Some (Timestamp t)) = Some (hour t)"
| "hour_of _ = None"

definition dt_hour :: "series \<Rightarrow> error + nat option list" where
  "dt_hour column =
     (case dtype column of
        datetime64 z \<Rightarrow> Inr (map hour_of (cells column))
      | _ \<Rightarrow> Inl (AttributeError ''Can only use .dt accessor with datetimelike values''))"

text \<open>A \<open>Series\<close> has no attribute \<open>tz\<close>: reading \<open>column.tz\<close> raises.\<close>

definition series_tz :: "series \<Rightarrow> error + string option" where
  "series_tz column = Inl (AttributeError ''Series object has no attribute tz'')"

section \<open>The process-wide warning filters\<close>

text \<open>
  \<open>to_sqla\<close> calls \<open>infer_dtype\<close> inside \<open>warnings.catch_warnings()\<close>, after
  \<open>warnings.filterwarnings('ignore', category=FutureWarning)\<close>. The filter list is the
  only state outside its arguments that the code touches, so it is passed explicitly:
  \<open>filterwarnings\<close> puts the entry in front (dropping an equal older entry), and
  \<open>catch_warnings\<close> restores on exit the list it saw on entry.
\<close>

type_synonym warning_filters = "(string \<times> string) list"

definition filterwarnings :: "string \<Rightarrow> string \<Rightarrow> warning_filters \<Rightarrow> warning_filters" where
  "filterwarnings action category filters = (action, category) # remove1 (action, category) filters"

definition catch_warnings ::
  "(warning_filters \<Rightarrow> 'a \<times> warning_filters) \<Rightarrow> warning_filters \<Rightarrow> 'a \<times> warning_filters" where
  "catch_warnings body filters = (fst (body filters), filters)"

section \<open>\<open>to_sqla\<close>: the column type inferred for one column\<close>

text \<open>
  The values the variable \<open>sa_type\<close> of \<open>to_sqla\<close> can hold: a column type of the
  relational library (the class, or an instance such as \<open>Float(precision=23)\<close> or
  \<open>TIMESTAMP(timezone=True)\<close>), one of the marker strings of the translation table, or
  the exception object stored there.
\<close>

datatype sa_value =
    BigInteger | Integer | Float nat | Text | Boolean
  | DateTime | Date | Time | TIMESTAMP bool
  | Str string
  | Exc error

definition translation :: "(string \<times> sa_value) list" where
  "translation =
     [(''timedelta64'', BigInteger),
      (''floating'', Str ''floating''),
      (''integer'', Str ''integer''),
      (''boolean'', Boolean),
      (''date'', Date),
      (''time'', Time),
      (''complex'', Exc (ValueError ''complex dtypes not supported''))]"

text \<open>Lines 50 to 52: the test on \<open>column.dt.hour\<close> that ends the datetime branch.\<close>

definition hour_check :: "series \<Rightarrow> error + sa_value" where
  "hour_check column =
     (case dt_hour column of
        Inl e \<Rightarrow> Inl e
      | Inr hours \<Rightarrow> if list_all (\<lambda>h. h = Some 0) hours then Inr Date else Inr DateTime)"

definition to_sqla :: "warning_filters \<Rightarrow> series \<Rightarrow> (error + sa_value) \<times> warning_filters" where
  "to_sqla filters column0 =
     (let column = getitem column0 (notna column0);
          (col_type, filters) =
             catch_warnings
               (\<lambda>fs. let fs = filterwarnings ''ignore'' ''FutureWarning'' fs
                     in (infer_dtype column, fs))
               filters
      in
        if col_type \<in> set [''datetime64'', ''datetime''] then
          (case dt_tz column of
             Inr z \<Rightarrow>
               if z \<noteq> None then (Inr (TIMESTAMP True), filters)
               else (hour_check column, filters)
           | Inl (AttributeError msg) \<Rightarrow>
               (case series_tz column of
                  Inl e \<Rightarrow> (Inl e, filters)
                | Inr z \<Rightarrow>
                    if z \<noteq> None then (Inr (TIMESTAMP True), filters)
                    else (hour_check column, filters))
           | Inl e \<Rightarrow> (Inl e, filters))
        else
          (case map_of translation col_type of
             None \<Rightarrow> (Inr Text, filters)
           | Some (Str s) \<Rightarrow>
               (let sa_type = Str s;
                    sa_type =
                      (if sa_type = Str ''floating'' then
                         (if dtype column = float32 then Float 23 else Float 53)
                       else sa_type);
                    sa_type =
                      (if sa_type = Str ''integer'' then
                         (if dtype column = int32 then Integer else BigInteger)
                       else sa_type)
                in (Inr sa_type, filters))
           | Some (Exc e) \<Rightarrow> (Inl e, filters)
           | Some sa_type \<Rightarrow> (Inr sa_type, filters)))"

section \<open>\<open>SNDF.reflect\<close>: the schema of a whole dataset\<close>

text \<open>
  A dataset is the list of its named columns, in order. The argument \<open>pk\<close> is \<open>None\<close>,
  one string or a list of strings; \<open>dtypes\<close> is \<open>None\<close> or a dictionary from column
  names to column types. \<open>bind\<close> is used only to render the statement text, so it is
  taken as the rendering function of its dialect.
\<close>

type_synonym dataframe = "(string \<times> series) list"

datatype pk_arg = PkNone | PkStr string | PkList "string list"

datatype sa_column =
  Column (column_name: string) (column_type: sa_value) (primary_key: bool)

datatype sa_table = Table string "sa_column list"

datatype reflect_result = Tbl sa_table | Stmt string

text \<open>\<open>str.lower()\<close>, on the ASCII letters (a \<open>char\<close> is a byte).\<close>

definition char_lower :: "char \<Rightarrow> char" where
  "char_lower c =
     (if 65 \<le> (of_char c :: nat) \<and> (of_char c :: nat) \<le> 90
      then char_of ((of_char c :: nat) + 32) else c)"

definition lower :: "string \<Rightarrow> string" where
  "lower s = map char_lower s"

text \<open>
  The loop of lines 231 to 234. \<open>dtypes.get(name, to_sqla(...))\<close> evaluates its second
  argument before the lookup, so \<open>to_sqla\<close> runs, and may raise, for every column.
\<close>

fun c_name_and_types ::
  "warning_filters \<Rightarrow> dataframe \<Rightarrow> string list \<Rightarrow> (string \<rightharpoonup> sa_value) \<Rightarrow>
   (string \<times> sa_value \<times> bool) list \<Rightarrow>
   (error + (string \<times> sa_value \<times> bool) list) \<times> warning_filters" where
  "c_name_and_types filters [] pk dtypes acc = (Inr acc, filters)"
| "c_name_and_types filters ((name, column) # rest) pk dtypes acc =
     (case to_sqla filters column of
        (Inl e, filters) \<Rightarrow> (Inl e, filters)
      | (Inr inferred, filters) \<Rightarrow>
          (let type = (case dtypes name of Some t \<Rightarrow> t | None \<Rightarrow> inferred);
               is_pk = (lower name \<in> set (map lower pk))
           in c_name_and_types filters rest pk dtypes (acc @ [(name, type, is_pk)])))"

definition reflect ::
  "warning_filters \<Rightarrow> dataframe \<Rightarrow> string \<Rightarrow> (sa_table \<Rightarrow> string) \<Rightarrow> pk_arg \<Rightarrow>
   (string \<rightharpoonup> sa_value) option \<Rightarrow> bool \<Rightarrow> (error + reflect_result) \<times> warning_filters" where
  "reflect filters df table_name bind pk dtypes as_sql_stmt =
     (let dtypes = (case dtypes of None \<Rightarrow> Map.empty | Some d \<Rightarrow> d);
          pk = (case pk of PkNone \<Rightarrow> [] | PkStr s \<Rightarrow> [s] | PkList names \<Rightarrow> names)
      in
        (case c_name_and_types filters df pk dtypes [] of
           (Inl e, filters) \<Rightarrow> (Inl e, filters)
         | (Inr triples, filters) \<Rightarrow>
             (let columns = map (\<lambda>(name, type, is_pk). Column name type is_pk) triples;
                  tbl = Table table_name columns
              in if as_sql_stmt then (Inr (Stmt (bind tbl)), filters)
                 else (Inr (Tbl tbl), filters))))"

section \<open>Vocabulary of the specification\<close>

text \<open>
  The storage width of a column, in bits, as its storage type fixes it; \<open>object\<close>
  storage holds references to values of unbounded size and has none.
\<close>

definition storage_bits :: "dtype \<Rightarrow> nat option" where
  "storage_bits d =
     (case d of
        int8 \<Rightarrow> Some 8 | int16 \<Rightarrow> Some 16 | int32 \<Rightarrow> Some 32 | int64 \<Rightarrow> Some 64
      | uint8 \<Rightarrow> Some 8 | uint16 \<Rightarrow> Some 16 | uint32 \<Rightarrow> Some 32 | uint64 \<Rightarrow> Some 64
      | float16 \<Rightarrow> Some 16 | float32 \<Rightarrow> Some 32 | float64 \<Rightarrow> Some 64
      | complex64 \<Rightarrow> Some 64 | complex128 \<Rightarrow> Some 128
      | bool8 \<Rightarrow> Some 8
      | datetime64 z \<Rightarrow> Some 64
      | timedelta64 \<Rightarrow> Some 64
      | object \<Rightarrow> None)"

text \<open>A cell carries timezone information when it is a datetime value with a \<open>tzinfo\<close>.\<close>

fun carries_tz :: "scalar option \<Rightarrow> bool" where
  "carries_tz (Some (Timestamp t)) = (tzinfo t \<noteq> None)"
| "carries_tz _ = False"

text \<open>The width of the integers a relational integer type holds.\<close>

definition integer_bits :: "sa_value \<Rightarrow> nat option" where
  "integer_bits ty = (case ty of Integer \<Rightarrow> Some 32 | BigInteger \<Rightarrow> Some 64 | _ \<Rightarrow> None)"

text \<open>
  Equality of two strings up to the case of their ASCII letters, stated on the characters:
  the strings have the same length and, position by position, the characters are equal or
  are the upper-case and the lower-case form of one letter.
\<close>

definition is_upper :: "char \<Rightarrow> bool" where
  "is_upper c = (65 \<le> (of_char c :: nat) \<and> (of_char c :: nat) \<le> 90)"

definition ci_char_eq :: "char \<Rightarrow> char \<Rightarrow> bool" where
  "ci_char_eq a b =
     (a = b \<or> (is_upper a \<and> (of_char b :: nat) = of_char a + 32)
            \<or> (is_upper b \<and> (of_char a :: nat) = of_char b + 32))"

definition ci_eq :: "string \<Rightarrow> string \<Rightarrow> bool" where
  "ci_eq s t = list_all2 ci_char_eq s t"

section \<open>The null filter and the warning filters\<close>

lemma mask_filter: "map fst (filter snd (zip xs (map P xs))) = filter P xs"
  by (induction xs) auto

lemma dropna_cells: "cells (getitem c (notna c)) = filter (\<lambda>v. v \<noteq> None) (cells c)"
  by (simp add: getitem_def notna_def mask_filter)

lemma dropna_dtype: "dtype (getitem c (notna c)) = dtype c"
  by (simp add: getitem_def)

lemma to_sqla_state: "to_sqla w c = (fst (to_sqla [] c), w)"
  by (simp add: to_sqla_def Let_def catch_warnings_def split: sum.splits error.splits option.splits sa_value.splits)

lemma to_sqla_datetime:
  "infer_dtype (getitem c (notna c)) \<in> {''datetime64'', ''datetime''} \<Longrightarrow>
   fst (to_sqla w c) =
     (case dt_tz (getitem c (notna c)) of
        Inr z \<Rightarrow> if z \<noteq> None then Inr (TIMESTAMP True) else hour_check (getitem c (notna c))
      | Inl e \<Rightarrow> Inl (AttributeError ''Series object has no attribute tz''))"
  by (auto simp add: to_sqla_def Let_def catch_warnings_def series_tz_def dt_tz_def split: sum.splits error.splits dtype.splits)

lemma to_sqla_table:
  "infer_dtype (getitem c (notna c)) = k \<Longrightarrow> k \<noteq> ''datetime64'' \<Longrightarrow> k \<noteq> ''datetime'' \<Longrightarrow>
   fst (to_sqla w c) =
     (if k = ''floating'' then Inr (if dtype c = float32 then Float 23 else Float 53)
      else if k = ''integer'' then Inr (if dtype c = int32 then Integer else BigInteger)
      else if k = ''timedelta64'' then Inr BigInteger
      else if k = ''boolean'' then Inr Boolean
      else if k = ''date'' then Inr Date
      else if k = ''time'' then Inr Time
      else if k = ''complex'' then Inl (ValueError ''complex dtypes not supported'')
      else Inr Text)"
  by (simp add: to_sqla_def Let_def catch_warnings_def translation_def dropna_dtype)

lemma to_sqla_pair: "fst (to_sqla [] c) = r \<Longrightarrow> to_sqla w c = (r, w)"
  using to_sqla_state [of w c] by simp

lemma cnt_state:
  "c_name_and_types w df pk d acc = (fst (c_name_and_types [] df pk d acc), w)"
proof (induction df arbitrary: acc)
  case Nil
  show ?case by simp
next
  case (Cons x df)
  obtain n c where x: "x = (n, c)" by (cases x)
  show ?case
  proof (cases "fst (to_sqla [] c)")
    case (Inl e)
    show ?thesis
      using x by (simp add: to_sqla_pair [OF Inl])
  next
    case (Inr ty)
    show ?thesis
      using x Cons.IH by (simp add: to_sqla_pair [OF Inr] Let_def)
  qed
qed

lemma cnt_failure:
  "fst (to_sqla [] c) = Inl e \<Longrightarrow>
   \<exists>e'. fst (c_name_and_types w (pre @ (n, c) # post) pk d acc) = Inl e'"
proof (induction pre arbitrary: acc)
  case Nil
  show ?case by (simp add: to_sqla_pair [OF Nil])
next
  case (Cons x pre)
  obtain m b where x: "x = (m, b)" by (cases x)
  show ?case
  proof (cases "fst (to_sqla [] b)")
    case (Inl e0)
    show ?thesis using x by (simp add: to_sqla_pair [OF Inl])
  next
    case (Inr ty)
    show ?thesis using x Cons.IH [OF Cons.prems] by (simp add: to_sqla_pair [OF Inr] Let_def)
  qed
qed

lemma cnt_first_failure:
  "fst (to_sqla [] c) = Inl e \<Longrightarrow>
   list_all (\<lambda>(m, b). \<not> isl (fst (to_sqla [] b))) pre \<Longrightarrow>
   fst (c_name_and_types w (pre @ (n, c) # post) pk d acc) = Inl e"
proof (induction pre arbitrary: acc)
  case Nil
  show ?case by (simp add: to_sqla_pair [OF Nil(1)])
next
  case (Cons x pre)
  obtain m b where x: "x = (m, b)" by (cases x)
  from Cons.prems(2) x obtain ty where ty: "fst (to_sqla [] b) = Inr ty"
    by (cases "fst (to_sqla [] b)") auto
  from Cons.prems(2) have rest: "list_all (\<lambda>(m, b). \<not> isl (fst (to_sqla [] b))) pre" by simp
  show ?case
    using x Cons.IH [OF Cons.prems(1) rest] by (simp add: to_sqla_pair [OF ty] Let_def)
qed

lemma cnt_success:
  "fst (c_name_and_types w df pk d acc) = Inr triples \<Longrightarrow>
   \<exists>new. triples = acc @ new \<and> map fst new = map fst df \<and>
     list_all (\<lambda>(name, ty, is_pk). is_pk = (lower name \<in> set (map lower pk))) new \<and>
     list_all (\<lambda>(name, ty, is_pk). \<forall>t. d name = Some t \<longrightarrow> ty = t) new"
proof (induction df arbitrary: acc)
  case Nil
  then show ?case by simp
next
  case (Cons x df)
  obtain n c where x: "x = (n, c)" by (cases x)
  have "\<exists>ty. fst (to_sqla [] c) = Inr ty"
  proof (cases "fst (to_sqla [] c)")
    case (Inl e)
    with Cons.prems x show ?thesis by (simp add: to_sqla_pair [OF Inl])
  next
    case (Inr ty)
    then show ?thesis by blast
  qed
  then obtain ty where ty: "fst (to_sqla [] c) = Inr ty" ..
  let ?t = "(n, (case d n of Some t \<Rightarrow> t | None \<Rightarrow> ty), lower n \<in> set (map lower pk))"
  from Cons.prems x
  have "fst (c_name_and_types w df pk d (acc @ [?t])) = Inr triples"
    by (simp add: to_sqla_pair [OF ty] Let_def)
  from Cons.IH [OF this] obtain new where
    new: "triples = (acc @ [?t]) @ new" "map fst new = map fst df"
      "list_all (\<lambda>(name, ty, is_pk). is_pk = (lower name \<in> set (map lower pk))) new"
      "list_all (\<lambda>(name, ty, is_pk). \<forall>t. d name = Some t \<longrightarrow> ty = t) new"
    by blast
  have "triples = acc @ (?t # new)" using new(1) by simp
  moreover have "map fst (?t # new) = map fst (x # df)" using new(2) x by simp
  moreover have "list_all (\<lambda>(name, ty, is_pk). is_pk = (lower name \<in> set (map lower pk))) (?t # new)"
    using new(3) by simp
  moreover have "list_all (\<lambda>(name, ty, is_pk). \<forall>t. d name = Some t \<longrightarrow> ty = t) (?t # new)"
    using new(4) by simp
  ultimately show ?case by blast
qed


lemma reflect_fst:
  "fst (reflect w df t b pk dts f) =
     (case fst (c_name_and_types w df
                  (case pk of PkNone \<Rightarrow> [] | PkStr s \<Rightarrow> [s] | PkList names \<Rightarrow> names)
                  (case dts of None \<Rightarrow> Map.empty | Some d \<Rightarrow> d) []) of
        Inl e \<Rightarrow> Inl e
      | Inr triples \<Rightarrow>
          (if f then Inr (Stmt (b (Table t (map (\<lambda>(name, type, is_pk). Column name type is_pk) triples))))
           else Inr (Tbl (Table t (map (\<lambda>(name, type, is_pk). Column name type is_pk) triples)))))"
  by (auto simp: reflect_def Let_def split: prod.splits sum.splits)

lemma reflect_snd: "snd (reflect w df t b pk dts f) = w"
proof -
  obtain r where
    "c_name_and_types w df
       (case pk of PkNone \<Rightarrow> [] | PkStr s \<Rightarrow> [s] | PkList names \<Rightarrow> names)
       (case dts of None \<Rightarrow> Map.empty | Some d \<Rightarrow> d) [] = (r, w)"
    using cnt_state by blast
  then show ?thesis
    by (simp add: reflect_def Let_def split: sum.splits)
qed

lemma reflect_error:
  "fst (c_name_and_types w df (case pk of PkNone \<Rightarrow> [] | PkStr s \<Rightarrow> [s] | PkList names \<Rightarrow> names)
          (case dts of None \<Rightarrow> Map.empty | Some d \<Rightarrow> d) []) = Inl e \<Longrightarrow>
   fst (reflect w df t b pk dts f) = Inl e"
  by (simp add: reflect_fst)

lemma integer_kind_dtypes:
  "infer_dtype s = ''integer'' \<Longrightarrow>
   dtype s \<in> {int8, int16, int32, int64, uint8, uint16, uint32, uint64, object}"
  by (cases "dtype s") (simp_all add: infer_dtype_def)

lemma floating_kind_dtypes:
  "infer_dtype s = ''floating'' \<Longrightarrow> dtype s \<in> {float16, float32, float64, object}"
  by (cases "dtype s") (simp_all add: infer_dtype_def)

text \<open>
  Kind \<open>datetime\<close> is the kind of datetime values in \<open>object\<close> storage. There
  \<open>column.dt\<close> raises \<open>AttributeError\<close>, the handler of line 46 reads \<open>column.tz\<close>,
  which a \<open>Series\<close> does not have, and that second \<open>AttributeError\<close> leaves \<open>to_sqla\<close>.
\<close>

lemma datetime_kind_is_object: "infer_dtype s = ''datetime'' \<Longrightarrow> dtype s = object"
  by (cases "dtype s") (simp_all add: infer_dtype_def)

lemma datetime_kind_raises:
  assumes "infer_dtype (getitem c (notna c)) = ''datetime''"
  shows "fst (to_sqla w c) = Inl (AttributeError ''Series object has no attribute tz'')"
proof -
  have "dtype (getitem c (notna c)) = object"
    using assms by (rule datetime_kind_is_object)
  then have "isl (dt_tz (getitem c (notna c)))"
    by (simp add: dt_tz_def)
  moreover have "infer_dtype (getitem c (notna c)) \<in> {''datetime64'', ''datetime''}"
    using assms by simp
  ultimately show ?thesis
    using to_sqla_datetime [of c w] by (cases "dt_tz (getitem c (notna c))") simp_all
qed

text \<open>The definitions to unfold when a call is evaluated on a concrete column.\<close>

lemmas eval_defs = to_sqla_def getitem_def notna_def catch_warnings_def filterwarnings_def
  infer_dtype_def dt_tz_def dt_hour_def hour_check_def series_tz_def translation_def
  List.map_filter_def Let_def

section \<open>Claims about \<open>to_sqla\<close>\<close>

text \<open>
  C2. A column whose non-null values are of complex kind is rejected: \<open>to_sqla\<close> raises
  the \<open>ValueError\<close> stored in its translation table (the specification's
  \<open>UnsupportedKindError\<close>) instead of falling back to \<open>Text\<close>; \<open>reflect\<close> on any
  dataset that contains such a column fails as a whole, and the error it reports is that
  very error whenever no column before it has already failed.
\<close>

theorem complex_column_rejected:
  assumes "infer_dtype (getitem c (notna c)) = ''complex''"
  shows "fst (to_sqla w c) = Inl (ValueError ''complex dtypes not supported'') \<and>
         (\<exists>e. fst (reflect w (pre @ (n, c) # post) t b pk dts f) = Inl e) \<and>
         (list_all (\<lambda>(m, d). \<not> isl (fst (to_sqla [] d))) pre \<longrightarrow>
            fst (reflect w (pre @ (n, c) # post) t b pk dts f) =
              Inl (ValueError ''complex dtypes not supported''))"
proof -
  have one: "fst (to_sqla w c) = Inl (ValueError ''complex dtypes not supported'')" for w
    using to_sqla_table [OF assms, of w] by simp
  have two: "\<exists>e. fst (reflect w (pre @ (n, c) # post) t b pk dts f) = Inl e"
    using cnt_failure [OF one [of "[]"]] reflect_error by blast
  have three: "fst (reflect w (pre @ (n, c) # post) t b pk dts f) =
      Inl (ValueError ''complex dtypes not supported'')"
    if "list_all (\<lambda>(m, d). \<not> isl (fst (to_sqla [] d))) pre"
    using cnt_first_failure [OF one [of "[]"] that] reflect_error by blast
  from one two three show ?thesis by blast
qed

theorem complex_column_rejected_witness:
  "infer_dtype (getitem \<lparr>dtype = complex128, cells = [Some (PyComplex (Complex 1 2)), None]\<rparr>
      (notna \<lparr>dtype = complex128, cells = [Some (PyComplex (Complex 1 2)), None]\<rparr>)) = ''complex'' \<and>
   list_all (\<lambda>(m, d). \<not> isl (fst (to_sqla [] d)))
      [(''id'', \<lparr>dtype = int64, cells = [Some (PyInt 1), Some (PyInt 2)]\<rparr>)] \<and>
   fst (to_sqla [] \<lparr>dtype = complex128, cells = [Some (PyComplex (Complex 1 2)), None]\<rparr>) =
     Inl (ValueError ''complex dtypes not supported'') \<and>
   fst (reflect []
         ([(''id'', \<lparr>dtype = int64, cells = [Some (PyInt 1), Some (PyInt 2)]\<rparr>)] @
          (''z'', \<lparr>dtype = complex128, cells = [Some (PyComplex (Complex 1 2)), None]\<rparr>) #
          [(''name'', \<lparr>dtype = object, cells = [Some (PyStr ''a''), Some (PyStr ''b'')]\<rparr>)])
         ''TMP_dataframe'' (\<lambda>tbl. []) PkNone None False) =
     Inl (ValueError ''complex dtypes not supported'')"
proof -
  let ?c = "\<lparr>dtype = complex128, cells = [Some (PyComplex (Complex 1 2)), None]\<rparr>"
  let ?pre = "[(''id'', \<lparr>dtype = int64, cells = [Some (PyInt 1), Some (PyInt 2)]\<rparr>)]"
  have k: "infer_dtype (getitem ?c (notna ?c)) = ''complex''"
    by (simp add: infer_dtype_def getitem_def notna_def)
  have p: "list_all (\<lambda>(m, d). \<not> isl (fst (to_sqla [] d))) ?pre"
    by (simp add: eval_defs)
  show ?thesis
    using k p complex_column_rejected [OF k, of "[]" ?pre "''z''"
        "[(''name'', \<lparr>dtype = object, cells = [Some (PyStr ''a''), Some (PyStr ''b'')]\<rparr>)]"
        "''TMP_dataframe''" "\<lambda>tbl. []" PkNone None False]
    by blast
qed

text \<open>
  Zone-aware datetime storage. A datetime column whose \<open>.dt.tz\<close> reports a time zone is
  given \<open>TIMESTAMP(timezone=True)\<close>, whatever its values are, so also when every value is
  at midnight: the zone is tested before the hours are looked at.
\<close>

theorem tz_aware_is_timestamp:
  assumes "infer_dtype (getitem c (notna c)) \<in> {''datetime64'', ''datetime''}"
    and "dt_tz (getitem c (notna c)) = Inr (Some z)"
  shows "fst (to_sqla w c) = Inr (TIMESTAMP True)"
  using to_sqla_datetime [OF assms(1), of w] assms(2) by simp

theorem tz_aware_is_timestamp_witness:
  "infer_dtype (getitem
      \<lparr>dtype = datetime64 (Some ''UTC''),
       cells = [Some (Timestamp \<lparr>year = 2020, month = 1, day = 1, hour = 0, minute = 0,
                  second = 0, microsecond = 0, nanosecond = 0,
                  tzinfo = Some ''UTC''\<rparr>), None]\<rparr>
      (notna \<lparr>dtype = datetime64 (Some ''UTC''),
       cells = [Some (Timestamp \<lparr>year = 2020, month = 1, day = 1, hour = 0, minute = 0,
                  second = 0, microsecond = 0, nanosecond = 0,
                  tzinfo = Some ''UTC''\<rparr>), None]\<rparr>))
     \<in> {''datetime64'', ''datetime''} \<and>
   dt_tz (getitem
      \<lparr>dtype = datetime64 (Some ''UTC''),
       cells = [Some (Timestamp \<lparr>year = 2020, month = 1, day = 1, hour = 0, minute = 0,
                  second = 0, microsecond = 0, nanosecond = 0,
                  tzinfo = Some ''UTC''\<rparr>), None]\<rparr>
      (notna \<lparr>dtype = datetime64 (Some ''UTC''),
       cells = [Some (Timestamp \<lparr>year = 2020, month = 1, day = 1, hour = 0, minute = 0,
                  second = 0, microsecond = 0, nanosecond = 0,
                  tzinfo = Some ''UTC''\<rparr>), None]\<rparr>)) = Inr (Some ''UTC'') \<and>
   fst (to_sqla []
      \<lparr>dtype = datetime64 (Some ''UTC''),
       cells = [Some (Timestamp \<lparr>year = 2020, month = 1, day = 1, hour = 0, minute = 0,
                  second = 0, microsecond = 0, nanosecond = 0,
                  tzinfo = Some ''UTC''\<rparr>), None]\<rparr>) = Inr (TIMESTAMP True)"
proof -
  let ?c = "\<lparr>dtype = datetime64 (Some ''UTC''),
       cells = [Some (Timestamp \<lparr>year = 2020, month = 1, day = 1, hour = 0, minute = 0,
                  second = 0, microsecond = 0, nanosecond = 0,
                  tzinfo = Some ''UTC''\<rparr>), None]\<rparr>"
  have k: "infer_dtype (getitem ?c (notna ?c)) \<in> {''datetime64'', ''datetime''}"
    by (simp add: infer_dtype_def getitem_def notna_def)
  have z: "dt_tz (getitem ?c (notna ?c)) = Inr (Some ''UTC'')"
    by (simp add: dt_tz_def getitem_def notna_def)
  show ?thesis
    using k z tz_aware_is_timestamp [OF k z, of "[]"] by blast
qed

text \<open>
  C4. The claim: every datetime-kind column in which a value carries timezone information is
  given \<open>TIMESTAMP(timezone=True)\<close>, also when all values are at midnight. The column
  below holds two midnight values of different zones, so it is in \<open>object\<close> storage and
  of kind \<open>datetime\<close>, which line 42 lists. \<open>column.dt\<close> raises, the handler that
  is meant to return the timestamp type reads \<open>column.tz\<close>, and \<open>to_sqla\<close> fails with
  \<open>AttributeError\<close>.
\<close>

theorem object_tz_aware_raises:
  "infer_dtype (getitem
      \<lparr>dtype = object,
       cells = [Some (Timestamp \<lparr>year = 2020, month = 1, day = 1, hour = 0, minute = 0,
                  second = 0, microsecond = 0, nanosecond = 0, tzinfo = Some ''UTC''\<rparr>),
                Some (Timestamp \<lparr>year = 2020, month = 1, day = 2, hour = 0, minute = 0,
                  second = 0, microsecond = 0, nanosecond = 0,
                  tzinfo = Some ''Europe/Paris''\<rparr>)]\<rparr>
      (notna \<lparr>dtype = object,
       cells = [Some (Timestamp \<lparr>year = 2020, month = 1, day = 1, hour = 0, minute = 0,
                  second = 0, microsecond = 0, nanosecond = 0, tzinfo = Some ''UTC''\<rparr>),
                Some (Timestamp \<lparr>year = 2020, month = 1, day = 2, hour = 0, minute = 0,
                  second = 0, microsecond = 0, nanosecond = 0,
                  tzinfo = Some ''Europe/Paris''\<rparr>)]\<rparr>)) = ''datetime'' \<and>
   list_ex carries_tz
     (cells \<lparr>dtype = object,
       cells = [Some (Timestamp \<lparr>year = 2020, month = 1, day = 1, hour = 0, minute = 0,
                  second = 0, microsecond = 0, nanosecond = 0, tzinfo = Some ''UTC''\<rparr>),
                Some (Timestamp \<lparr>year = 2020, month = 1, day = 2, hour = 0, minute = 0,
                  second = 0, microsecond = 0, nanosecond = 0,
                  tzinfo = Some ''Europe/Paris''\<rparr>)]\<rparr>) \<and>
   fst (to_sqla []
      \<lparr>dtype = object,
       cells = [Some (Timestamp \<lparr>year = 2020, month = 1, day = 1, hour = 0, minute = 0,
                  second = 0, microsecond = 0, nanosecond = 0, tzinfo = Some ''UTC''\<rparr>),
                Some (Timestamp \<lparr>year = 2020, month = 1, day = 2, hour = 0, minute = 0,
                  second = 0, microsecond = 0, nanosecond = 0,
                  tzinfo = Some ''Europe/Paris''\<rparr>)]\<rparr>) =
     Inl (AttributeError ''Series object has no attribute tz'')"
  by (simp add: eval_defs)

text \<open>
  C5, as amended. A column whose cells are all null and which is held in \<open>object\<close>
  storage is given \<open>Text\<close>.
\<close>

theorem all_null_object_is_text:
  assumes "dtype c = object" and "list_all (\<lambda>v. v = None) (cells c)"
  shows "fst (to_sqla w c) = Inr Text"
proof -
  have "filter (\<lambda>v. v \<noteq> None) (cells c) = []"
    using assms(2) by (simp add: list_all_iff filter_empty_conv)
  then have "infer_dtype (getitem c (notna c)) = ''empty''"
    using assms(1) by (simp add: infer_dtype_def dropna_dtype dropna_cells)
  from to_sqla_table [OF this, of w] show ?thesis by simp
qed

theorem all_null_object_is_text_witness:
  "dtype \<lparr>dtype = object, cells = [None, None]\<rparr> = object \<and>
   list_all (\<lambda>v. v = None) (cells \<lparr>dtype = object, cells = [None, None]\<rparr>) \<and>
   fst (to_sqla [] \<lparr>dtype = object, cells = [None, None]\<rparr>) = Inr Text"
  using all_null_object_is_text [of "\<lparr>dtype = object, cells = [None, None]\<rparr>" "[]"]
  by simp

text \<open>
  The claim as first stated, for every all-null column, fails on a \<open>float64\<close> column
  holding only \<open>NaN\<close>: the filtered column is empty, yet \<open>infer_dtype\<close> answers
  \<open>floating\<close> from the storage type and the result is \<open>Float(precision=53)\<close>.
\<close>

theorem all_null_typed_counterexample:
  "list_all (\<lambda>v. v = None) (cells \<lparr>dtype = float64, cells = [None, None]\<rparr>) \<and>
   fst (to_sqla [] \<lparr>dtype = float64, cells = [None, None]\<rparr>) = Inr (Float 53) \<and>
   fst (to_sqla [] \<lparr>dtype = float64, cells = [None, None]\<rparr>) \<noteq> Inr Text"
  by (simp add: eval_defs)

text \<open>
  C6, as amended. For a column of integer kind the result is \<open>Integer\<close> exactly when the
  storage type is the signed 32-bit \<open>int32\<close>, and \<open>BigInteger\<close> for every other integer
  storage, the unsigned 32-bit one included; the integer type returned is never narrower
  than the storage width.
\<close>

theorem integer_kind_width:
  assumes "infer_dtype (getitem c (notna c)) = ''integer''"
  shows "fst (to_sqla w c) = Inr (if dtype c = int32 then Integer else BigInteger) \<and>
         (\<exists>ty n. fst (to_sqla w c) = Inr ty \<and> integer_bits ty = Some n \<and>
            (\<forall>bits. storage_bits (dtype c) = Some bits \<longrightarrow> bits \<le> n))"
proof -
  have r: "fst (to_sqla w c) = Inr (if dtype c = int32 then Integer else BigInteger)"
    using to_sqla_table [OF assms, of w] by simp
  have d: "dtype c \<in> {int8, int16, int32, int64, uint8, uint16, uint32, uint64, object}"
    using integer_kind_dtypes [OF assms] by (simp add: dropna_dtype)
  have "\<forall>bits. storage_bits (dtype c) = Some bits \<longrightarrow>
         bits \<le> (if dtype c = int32 then 32 else 64)"
    using d by (auto simp: storage_bits_def)
  moreover have "integer_bits (if dtype c = int32 then Integer else BigInteger) =
      Some (if dtype c = int32 then 32 else 64)"
    by (simp add: integer_bits_def)
  ultimately show ?thesis using r by blast
qed

theorem integer_kind_width_witness:
  "infer_dtype (getitem \<lparr>dtype = int32, cells = [Some (PyInt 7)]\<rparr>
      (notna \<lparr>dtype = int32, cells = [Some (PyInt 7)]\<rparr>)) = ''integer'' \<and>
   fst (to_sqla [] \<lparr>dtype = int32, cells = [Some (PyInt 7)]\<rparr>) = Inr Integer \<and>
   infer_dtype (getitem \<lparr>dtype = int64, cells = [Some (PyInt 7)]\<rparr>
      (notna \<lparr>dtype = int64, cells = [Some (PyInt 7)]\<rparr>)) = ''integer'' \<and>
   fst (to_sqla [] \<lparr>dtype = int64, cells = [Some (PyInt 7)]\<rparr>) = Inr BigInteger"
proof -
  have a: "infer_dtype (getitem \<lparr>dtype = int32, cells = [Some (PyInt 7)]\<rparr>
      (notna \<lparr>dtype = int32, cells = [Some (PyInt 7)]\<rparr>)) = ''integer''"
    by (simp add: infer_dtype_def getitem_def notna_def)
  have b: "infer_dtype (getitem \<lparr>dtype = int64, cells = [Some (PyInt 7)]\<rparr>
      (notna \<lparr>dtype = int64, cells = [Some (PyInt 7)]\<rparr>)) = ''integer''"
    by (simp add: infer_dtype_def getitem_def notna_def)
  show ?thesis
    using a b integer_kind_width [OF a, of "[]"] integer_kind_width [OF b, of "[]"]
    by simp
qed

text \<open>
  The claim as first stated, \<open>Integer\<close> for every 32-bit storage, fails on a \<open>uint32\<close>
  column: its storage is 32 bits wide, it is not \<open>int32\<close>, and the result is
  \<open>BigInteger\<close>.
\<close>

theorem unsigned_32_bit_counterexample:
  "infer_dtype (getitem \<lparr>dtype = uint32, cells = [Some (PyInt 4000000000)]\<rparr>
      (notna \<lparr>dtype = uint32, cells = [Some (PyInt 4000000000)]\<rparr>)) = ''integer'' \<and>
   storage_bits (dtype \<lparr>dtype = uint32, cells = [Some (PyInt 4000000000)]\<rparr>) = Some 32 \<and>
   fst (to_sqla [] \<lparr>dtype = uint32, cells = [Some (PyInt 4000000000)]\<rparr>) = Inr BigInteger \<and>
   fst (to_sqla [] \<lparr>dtype = uint32, cells = [Some (PyInt 4000000000)]\<rparr>) \<noteq> Inr Integer"
  by (simp add: eval_defs storage_bits_def)

text \<open>
  C7. For a column of floating kind the result is \<open>Float(precision=23)\<close> when the storage
  width is 32 bits and \<open>Float(precision=53)\<close> for any other storage.
\<close>

theorem floating_kind_precision:
  assumes "infer_dtype (getitem c (notna c)) = ''floating''"
  shows "fst (to_sqla w c) =
           Inr (if storage_bits (dtype c) = Some 32 then Float 23 else Float 53)"
proof -
  have d: "dtype c \<in> {float16, float32, float64, object}"
    using floating_kind_dtypes [OF assms] by (simp add: dropna_dtype)
  then have "(storage_bits (dtype c) = Some 32) = (dtype c = float32)"
    by (auto simp: storage_bits_def)
  then show ?thesis using to_sqla_table [OF assms, of w] by simp
qed

theorem floating_kind_precision_witness:
  "infer_dtype (getitem \<lparr>dtype = float32, cells = [Some (PyFloat 1.5), None]\<rparr>
      (notna \<lparr>dtype = float32, cells = [Some (PyFloat 1.5), None]\<rparr>)) = ''floating'' \<and>
   fst (to_sqla [] \<lparr>dtype = float32, cells = [Some (PyFloat 1.5), None]\<rparr>) = Inr (Float 23) \<and>
   infer_dtype (getitem \<lparr>dtype = float64, cells = [Some (PyFloat 1.5), None]\<rparr>
      (notna \<lparr>dtype = float64, cells = [Some (PyFloat 1.5), None]\<rparr>)) = ''floating'' \<and>
   fst (to_sqla [] \<lparr>dtype = float64, cells = [Some (PyFloat 1.5), None]\<rparr>) = Inr (Float 53)"
proof -
  have a: "infer_dtype (getitem \<lparr>dtype = float32, cells = [Some (PyFloat 1.5), None]\<rparr>
      (notna \<lparr>dtype = float32, cells = [Some (PyFloat 1.5), None]\<rparr>)) = ''floating''"
    by (simp add: infer_dtype_def getitem_def notna_def)
  have b: "infer_dtype (getitem \<lparr>dtype = float64, cells = [Some (PyFloat 1.5), None]\<rparr>
      (notna \<lparr>dtype = float64, cells = [Some (PyFloat 1.5), None]\<rparr>)) = ''floating''"
    by (simp add: infer_dtype_def getitem_def notna_def)
  show ?thesis
    using a b floating_kind_precision [OF a, of "[]"] floating_kind_precision [OF b, of "[]"]
    by (simp add: storage_bits_def)
qed

text \<open>
  C3. The claim: a datetime column without time zone is given \<open>Date\<close> when every
  non-null value is exactly at midnight and \<open>DateTime\<close> as soon as one is not. The code
  tests \<open>column.dt.hour == 0\<close> only, so a value at 00:30 still counts as midnight: the
  column below is given \<open>Date\<close>.
\<close>

theorem half_past_midnight_is_date:
  "fst (to_sqla []
     \<lparr>dtype = datetime64 None,
      cells = [Some (Timestamp \<lparr>year = 2020, month = 1, day = 1, hour = 0, minute = 30,
                 second = 0, microsecond = 0, nanosecond = 0, tzinfo = None\<rparr>)]\<rparr>) = Inr Date"
  by (simp add: eval_defs)

section \<open>Claims about \<open>reflect\<close>\<close>

text \<open>
  \<open>name.lower() in map(lambda s: s.lower(), pk)\<close> compares lowered strings; this is
  equality up to letter case as \<open>ci_eq\<close> states it on the characters.
\<close>

lemma of_char_lower:
  "(of_char (char_lower c) :: nat) = (if is_upper c then of_char c + 32 else of_char c)"
  by (simp add: char_lower_def is_upper_def)

lemma char_lower_eq_iff: "char_lower a = char_lower b \<longleftrightarrow> ci_char_eq a b"
proof -
  have "char_lower a = char_lower b \<longleftrightarrow>
      (of_char (char_lower a) :: nat) = of_char (char_lower b)"
    by simp
  also have "\<dots> \<longleftrightarrow>
      ((of_char a :: nat) = of_char b
       \<or> (is_upper a \<and> (of_char b :: nat) = of_char a + 32)
       \<or> (is_upper b \<and> (of_char a :: nat) = of_char b + 32))"
    unfolding of_char_lower by (auto simp: is_upper_def)
  also have "\<dots> \<longleftrightarrow> ci_char_eq a b"
    by (simp add: ci_char_eq_def)
  finally show ?thesis .
qed

lemma lower_eq_iff: "lower s = lower t \<longleftrightarrow> ci_eq s t"
  unfolding lower_def ci_eq_def
proof (induction s arbitrary: t)
  case Nil
  show ?case by auto
next
  case (Cons a s)
  show ?case
  proof (cases t)
    case Nil
    then show ?thesis by simp
  next
    case (Cons b u)
    with Cons.IH [of u] show ?thesis by (simp add: char_lower_eq_iff)
  qed
qed

lemma lower_mem_iff: "lower n \<in> lower ` set names \<longleftrightarrow> list_ex (ci_eq n) names"
  by (auto simp: list_ex_iff lower_eq_iff)

lemma columns_of_triples:
  "list_all (\<lambda>(name, ty, is_pk). is_pk = (lower name \<in> set (map lower names))) new \<Longrightarrow>
   map column_name (map (\<lambda>(name, type, is_pk). Column name type is_pk) new) = map fst new \<and>
   list_all (\<lambda>col. primary_key col = list_ex (ci_eq (column_name col)) names)
     (map (\<lambda>(name, type, is_pk). Column name type is_pk) new)"
  by (induction new) (auto simp: lower_mem_iff)

text \<open>
  C1. The claim: a column with an entry in \<open>dtypes\<close> is not inferred, so \<open>reflect\<close>
  succeeds on it even where inference would fail. The code passes \<open>to_sqla(...)\<close> as the
  default argument of \<open>dtypes.get\<close>, which is evaluated before the lookup: on a complex
  column overridden to \<open>Text\<close> the call still fails with the error of \<open>to_sqla\<close>.
\<close>

theorem override_does_not_skip_inference:
  "fst (reflect []
         [(''z'', \<lparr>dtype = complex128, cells = [Some (PyComplex (Complex 1 2))]\<rparr>)]
         ''TMP_dataframe'' (\<lambda>tbl. []) PkNone (Some [''z'' \<mapsto> Text]) False) =
     Inl (ValueError ''complex dtypes not supported'')"
  by (simp add: reflect_def eval_defs)

text \<open>
  C8. Primary keys are matched without regard to letter case. Whenever \<open>reflect\<close>
  succeeds on a list of primary-key names, the table it builds (returned, or handed to the
  renderer when the statement text is asked for) has one column per dataset column, in
  order and under the same names, and a column is flagged as primary key exactly when its
  name equals one of the supplied names up to letter case.
\<close>

theorem pk_matching_is_case_insensitive:
  assumes "fst (reflect w df t b (PkList names) dts f) = Inr r"
  shows "\<exists>columns.
           (r = Tbl (Table t columns) \<or> r = Stmt (b (Table t columns))) \<and>
           map column_name columns = map fst df \<and>
           list_all (\<lambda>col. primary_key col = list_ex (ci_eq (column_name col)) names) columns"
proof -
  let ?d = "case dts of None \<Rightarrow> Map.empty | Some d \<Rightarrow> d"
  let ?mk = "map (\<lambda>(name, type, is_pk). Column name type is_pk)"
  from assms obtain triples where
    tr: "fst (c_name_and_types w df names ?d []) = Inr triples"
    and r: "r = (if f then Stmt (b (Table t (?mk triples))) else Tbl (Table t (?mk triples)))"
    by (auto simp: reflect_fst split: sum.splits if_splits)
  from cnt_success [OF tr] have
    names: "map fst triples = map fst df" and
    pk: "list_all (\<lambda>(name, ty, is_pk). is_pk = (lower name \<in> set (map lower names))) triples"
    by auto
  from columns_of_triples [OF pk] names r show ?thesis
    by (intro exI [of _ "?mk triples"]) auto
qed

theorem pk_matching_is_case_insensitive_witness:
  "fst (reflect []
         [(''dates_not_null'',
            \<lparr>dtype = datetime64 None,
             cells = [Some (Timestamp \<lparr>year = 2020, month = 1, day = 1, hour = 0, minute = 0,
                        second = 0, microsecond = 0, nanosecond = 0, tzinfo = None\<rparr>)]\<rparr>),
          (''amount'', \<lparr>dtype = float32, cells = [Some (PyFloat 1.5)]\<rparr>)]
         ''TMP_dataframe'' (\<lambda>tbl. []) (PkList [''Dates_Not_Null'']) None False) =
     Inr (Tbl (Table ''TMP_dataframe''
            [Column ''dates_not_null'' Date True, Column ''amount'' (Float 23) False])) \<and>
   list_all (\<lambda>col. primary_key col = list_ex (ci_eq (column_name col)) [''Dates_Not_Null''])
     [Column ''dates_not_null'' Date True, Column ''amount'' (Float 23) False]"
proof -
  have l1: "lower ''Dates_Not_Null'' = ''dates_not_null''" by code_simp
  have l2: "lower ''dates_not_null'' = ''dates_not_null''" by code_simp
  have l3: "lower ''amount'' = ''amount''" by code_simp
  have e: "fst (reflect []
         [(''dates_not_null'',
            \<lparr>dtype = datetime64 None,
             cells = [Some (Timestamp \<lparr>year = 2020, month = 1, day = 1, hour = 0, minute = 0,
                        second = 0, microsecond = 0, nanosecond = 0, tzinfo = None\<rparr>)]\<rparr>),
          (''amount'', \<lparr>dtype = float32, cells = [Some (PyFloat 1.5)]\<rparr>)]
         ''TMP_dataframe'' (\<lambda>tbl. []) (PkList [''Dates_Not_Null'']) None False) =
     Inr (Tbl (Table ''TMP_dataframe''
            [Column ''dates_not_null'' Date True, Column ''amount'' (Float 23) False]))"
    by (simp add: reflect_def eval_defs l1 l2 l3)
  from pk_matching_is_case_insensitive [OF e] e show ?thesis
    by auto
qed

text \<open>
  C9. Schema synthesis is deterministic. A call of \<open>reflect\<close> leaves the warning filters,
  the only state it touches, as it found them; so a second call with the same arguments,
  started in the state the first one left, returns the same result; and the result does
  not depend on the state the call is started in.
\<close>

theorem reflect_deterministic:
  "snd (reflect w df t b pk dts f) = w \<and>
   fst (reflect (snd (reflect w df t b pk dts f)) df t b pk dts f) =
     fst (reflect w df t b pk dts f) \<and>
   fst (reflect w' df t b pk dts f) = fst (reflect w df t b pk dts f)"
proof -
  have any: "fst (reflect v df t b pk dts f) = fst (reflect [] df t b pk dts f)" for v
    unfolding reflect_fst by (subst cnt_state) simp
  have "fst (reflect w' df t b pk dts f) = fst (reflect w df t b pk dts f)"
    using any [of w'] any [of w] by simp
  then show ?thesis by (simp add: reflect_snd)
qed

text \<open>
  C10. A single string passed as \<open>pk\<close> is treated as the list holding just that string.
\<close>

theorem reflect_pk_str_is_singleton_list:
  "reflect w df t b (PkStr s) dts f = reflect w df t b (PkList [s]) dts f"
  by (simp add: reflect_def)

end
